theory Spec2Isabelle
  imports Complex_Main "HOL-Library.Sublist" "HOL-Library.AList" "HOL-Library.Multiset"
begin

section \<open>Python values and exceptions\<close>

text \<open>
  The exceptions the two modules can raise. \<open>ClientError code message\<close> is botocore's
  exception, carrying \<open>err.response["Error"]["Code"]\<close> and \<open>["Message"]\<close>; the others
  are Python built-ins (\<open>ValueError\<close> is also what scikit-learn raises).
\<close>

datatype error =
    ClientError string string
  | KeyError string
  | IndexError
  | ValueError
  | AttributeError
  | WaiterError

fun exception_name :: "error \<Rightarrow> string" where
  "exception_name (ClientError code msg) = ''ClientError''"
| "exception_name (KeyError k) = ''KeyError''"
| "exception_name IndexError = ''IndexError''"
| "exception_name ValueError = ''ValueError''"
| "exception_name AttributeError = ''AttributeError''"
| "exception_name WaiterError = ''WaiterError''"

text \<open>
  Attribute values of an item: a number, a string, or a list. An item (a Python
  \<open>dict\<close> with string keys) is an association list in insertion order.
\<close>

datatype attr = N int | S string | L "attr list"

type_synonym item = "(string \<times> attr) list"

text \<open>\<open>xs[i]\<close> for a non-negative index: \<open>IndexError\<close> out of range.\<close>

definition list_get :: "'a list \<Rightarrow> nat \<Rightarrow> error + 'a" where
  "list_get xs i = (if i < length xs then Inr (xs ! i) else Inl IndexError)"

text \<open>\<open>d[k]\<close> on a dict: \<open>KeyError\<close> when the key is absent.\<close>

definition dict_get :: "(string \<times> 'v) list \<Rightarrow> string \<Rightarrow> error + 'v" where
  "dict_get d k = (case map_of d k of None \<Rightarrow> Inl (KeyError k) | Some v \<Rightarrow> Inr v)"

text \<open>
  \<open>str.find(sub)\<close>: the lowest index at which \<open>sub\<close> occurs, \<open>-1\<close> when it does
  not occur.
\<close>

fun str_find :: "string \<Rightarrow> string \<Rightarrow> int" where
  "str_find [] sub = (if sub = [] then 0 else - 1)"
| "str_find (c # s) sub =
     (if prefix sub (c # s) then 0
      else (let r = str_find s sub in if r < 0 then - 1 else r + 1))"

text \<open>
  \<open>int(s)\<close> on ASCII text, as CPython 3.11 reads it: the whitespace around the number
  (space, tab, line feed, vertical tab, form feed, carriage return) is dropped, then
  comes an optional sign, then decimal digits, single underscores allowed between
  digits; anything else raises \<open>ValueError\<close>, and so does a number of more than
  \<open>4300\<close> digits (the interpreter's default limit; underscores and the sign do not
  count, leading zeros do). On text with a character outside ASCII \<open>int\<close> also reads
  Unicode digits and spaces: there the model is not Python's \<open>int\<close>, and \<open>is_ascii\<close>
  marks the text it covers.
\<close>

definition is_ascii :: "string \<Rightarrow> bool" where
  "is_ascii s = list_all (\<lambda>c. (of_char c :: nat) < 128) s"

definition is_space :: "char \<Rightarrow> bool" where
  "is_space c = (c \<in> set [CHR '' '', CHR 0x09, CHR 0x0A, CHR 0x0B, CHR 0x0C, CHR 0x0D])"

definition max_str_digits :: nat where
  "max_str_digits = 4300"

definition strip :: "string \<Rightarrow> string" where
  "strip s = rev (dropWhile is_space (rev (dropWhile is_space s)))"

definition is_digit :: "char \<Rightarrow> bool" where
  "is_digit c = (48 \<le> (of_char c :: nat) \<and> (of_char c :: nat) \<le> 57)"

definition digit_val :: "char \<Rightarrow> int" where
  "digit_val c = int (of_char c) - 48"

fun parse_digits :: "int \<Rightarrow> string \<Rightarrow> error + int" where
  "parse_digits acc [] = Inr acc"
| "parse_digits acc [c] =
     (if is_digit c then Inr (acc * 10 + digit_val c) else Inl ValueError)"
| "parse_digits acc (c # d # s) =
     (if is_digit c then parse_digits (acc * 10 + digit_val c) (d # s)
      else if c = CHR ''_'' \<and> is_digit d then parse_digits acc (d # s)
      else Inl ValueError)"

definition py_int :: "string \<Rightarrow> error + int" where
  "py_int s =
     (let t = strip s;
          neg = (t \<noteq> [] \<and> hd t = CHR ''-'');
          body = (if t \<noteq> [] \<and> (hd t = CHR ''-'' \<or> hd t = CHR ''+'') then tl t else t)
      in if body = [] \<or> \<not> is_digit (hd body) then Inl ValueError
         else (case parse_digits 0 body of
                 Inl e \<Rightarrow> Inl e
               | Inr n \<Rightarrow>
                   if length (filter is_digit body) > max_str_digits then Inl ValueError
                   else Inr (if neg then - n else n)))"

text \<open>\<open>os.path.join(a, *p)\<close> on a POSIX system.\<close>

fun os_path_join :: "string \<Rightarrow> string list \<Rightarrow> string" where
  "os_path_join a [] = a"
| "os_path_join a (b # p) =
     os_path_join
       (if b \<noteq> [] \<and> hd b = CHR ''/'' then b
        else if a = [] \<or> last a = CHR ''/'' then a @ b
        else a @ ''/'' @ b) p"

section \<open>The record builder (data\_to\_dynamodb.py)\<close>

text \<open>
  \<open>split_list_on_element\<close>: the \<open>for\<close> loop over \<open>input_list\<close> with its two
  variables \<open>result\<close> and \<open>sublist\<close>; the first equation is the code after the loop.
\<close>

fun split_loop :: "string \<Rightarrow> string list list \<Rightarrow> string list \<Rightarrow> string list \<Rightarrow> string list list" where
  "split_loop split_element result sublist' [] =
     (if sublist' \<noteq> [] then result @ [sublist'] else result)"
| "split_loop split_element result sublist' (item # rest) =
     (if str_find item split_element > 0 then
        (if sublist' \<noteq> [] then split_loop split_element (result @ [sublist']) [item] rest
         else split_loop split_element result (sublist' @ [item]) rest)
      else split_loop split_element result (sublist' @ [item]) rest)"

definition split_list_on_element :: "string list \<Rightarrow> string \<Rightarrow> string list list" where
  "split_list_on_element input_list split_element = split_loop split_element [] [] input_list"

text \<open>
  \<open>map_list_to_json\<close>: the dict literal is evaluated entry by entry, so \<open>x[0]\<close> is read
  before \<open>x[1]\<close>, and \<open>x[1]\<close> before \<open>int\<close> is applied. The slice \<open>x[2:]\<close> never raises.
\<close>

definition map_list_to_json :: "string list \<Rightarrow> error + item" where
  "map_list_to_json x =
     (case list_get x 0 of
        Inl e \<Rightarrow> Inl e
      | Inr x0 \<Rightarrow>
          (case list_get x 1 of
             Inl e \<Rightarrow> Inl e
           | Inr x1 \<Rightarrow>
               (case py_int x1 of
                  Inl e \<Rightarrow> Inl e
                | Inr n \<Rightarrow>
                    Inr [(''image_name'', S (os_path_join x0 [])),
                         (''num_faces'', N n),
                         (''faces'', L (map S (drop 2 x))),
                         (''train_set'', N 1)])))"

text \<open>\<open>modify_value\<close>: \<open>d['train_set'] = 0\<close>, then the dict is returned.\<close>

definition modify_value :: "item \<Rightarrow> item" where
  "modify_value d = AList.update ''train_set'' (N 0) d"

text \<open>
  \<open>sklearn.model_selection.train_test_split(arrays, test_size=...)\<close> for one list and a
  float \<open>test_size\<close>, with no \<open>random_state\<close>: the library draws a permutation
  of the indices from the process-wide random generator (the argument \<open>permutation\<close>
  here), takes \<open>n_test = ceil(test_size * n_samples)\<close> and
  \<open>n_train = n_samples - n_test\<close>, raises \<open>ValueError\<close> when the train set would be
  empty, and returns the elements at \<open>permutation[n_test:n_test + n_train]\<close> and at
  \<open>permutation[:n_test]\<close>. The test size is a rational here: for \<open>0.2\<close> and every
  list length below \<open>2^53\<close> the floating-point product has the ceiling of the exact one.
\<close>

definition train_test_split ::
    "'a list \<Rightarrow> rat \<Rightarrow> nat list \<Rightarrow> error + ('a list \<times> 'a list)" where
  "train_test_split arrays test_size permutation =
     (let n_samples = length arrays in
      if test_size \<le> 0 \<or> 1 \<le> test_size then Inl ValueError
      else
        (let n_test = nat \<lceil>test_size * of_nat n_samples\<rceil>;
             n_train = n_samples - n_test
         in if n_train = 0 then Inl ValueError
            else Inr (map ((!) arrays) (take n_train (drop n_test permutation)),
                      map ((!) arrays) (take n_test permutation))))"

text \<open>
  The split of the main block: \<open>train, test = train_test_split(flat_json_list,
  test_size=0.2)\<close>, \<open>test = list(map(modify_value, test))\<close>, \<open>train.extend(test)\<close>.
  The result is the extended list \<open>train\<close>.
\<close>

definition split_and_tag :: "item list \<Rightarrow> nat list \<Rightarrow> error + item list" where
  "split_and_tag flat_json_list permutation =
     (case train_test_split flat_json_list (1 / 5) permutation of
        Inl e \<Rightarrow> Inl e
      | Inr (train, test) \<Rightarrow> Inr (train @ map modify_value test))"

text \<open>
  A run of that block which is given a seed. The block has no place to receive one:
  \<open>train_test_split\<close> is called without \<open>random_state\<close> and \<open>numpy.random.seed\<close> is
  never called, so \<open>rng_seed\<close> does not occur on the right-hand side. What varies
  from run to run is \<open>permutation\<close>, the draw of the process-wide generator.
\<close>

definition seeded_run :: "nat \<Rightarrow> item list \<Rightarrow> nat list \<Rightarrow> error + item list" where
  "seeded_run rng_seed flat_json_list permutation = split_and_tag flat_json_list permutation"

section \<open>The store behind boto3\<close>

text \<open>
  What the program does besides computing: \<open>time.sleep\<close>, the log lines, and the
  requests of \<open>do_batch_get\<close>, in the order they happen. A log line is its format
  string with its arguments.
\<close>

type_synonym batch_keys = "(string \<times> item list) list"

datatype event =
    Batch_get_item batch_keys
  | Sleep nat
  | Log_info string "attr list"
  | Log_error string "attr list"

text \<open>
  \<open>table\<close> is \<open>self.table\<close> of the \<open>DynamoDBTable\<close> object (\<open>None\<close>, or the handle of
  a table, which is its name); \<open>store\<close> is the state of the service.
\<close>

record 's world =
  table :: "string option"
  store :: 's
  events :: "event list"

record table_spec =
  TableName :: string
  KeySchema :: "(string \<times> string) list"
  AttributeDefinitions :: "(string \<times> string) list"
  ProvisionedThroughput :: "nat \<times> nat"

text \<open>
  The response of \<open>batch_get_item\<close>. A request or an \<open>UnprocessedKeys\<close> entry maps a
  table name to its \<open>Keys\<close> list.
\<close>

record batch_get_response =
  Responses :: "(string \<times> item list) list option"
  UnprocessedKeys :: "batch_keys option"

text \<open>
  The calls the program makes on the boto3 resource and on a table handle. Each takes
  the state of the service and returns what the call returns or raises, and the new
  state. \<open>get_item\<close> returns the \<open>Item\<close> entry of its response, absent when there is
  no such item.
\<close>

record 's dynamodb =
  load :: "string \<Rightarrow> 's \<Rightarrow> (error + unit) \<times> 's"
  resource_create_table :: "table_spec \<Rightarrow> 's \<Rightarrow> (error + string) \<times> 's"
  wait_until_exists :: "string \<Rightarrow> 's \<Rightarrow> (error + unit) \<times> 's"
  delete :: "string \<Rightarrow> 's \<Rightarrow> (error + unit) \<times> 's"
  batch_writer :: "string \<Rightarrow> item list \<Rightarrow> 's \<Rightarrow> (error + unit) \<times> 's"
  get_item :: "string \<Rightarrow> item \<Rightarrow> 's \<Rightarrow> (error + item option) \<times> 's"
  batch_get_item :: "batch_keys \<Rightarrow> 's \<Rightarrow> (error + batch_get_response) \<times> 's"

section \<open>The table client (dynamo.py)\<close>

definition max_tries :: nat where
  "max_tries = 5"

text \<open>
  \<open>for key in response.get("Responses", []): retrieved[key] += response["Responses"][key]\<close>
\<close>

fun collect :: "(string \<times> item list) list \<Rightarrow> (string \<times> item list) list
    \<Rightarrow> error + (string \<times> item list) list" where
  "collect retrieved [] = Inr retrieved"
| "collect retrieved ((key, items) # rest) =
     (case map_of retrieved key of
        None \<Rightarrow> Inl (KeyError key)
      | Some old \<Rightarrow> collect (AList.update key (old @ items) retrieved) rest)"

definition emit :: "event list \<Rightarrow> 's world \<Rightarrow> 's world" where
  "emit es w = w\<lparr>events := events w @ es\<rparr>"

text \<open>
  The \<open>while\<close> loop of \<open>do_batch_get\<close>. The module never binds the global name
  \<open>dynamodb\<close> that the loop calls, so the resource is a parameter.
\<close>

function do_batch_get_loop ::
    "'s dynamodb \<Rightarrow> nat \<Rightarrow> nat \<Rightarrow> batch_keys \<Rightarrow> (string \<times> item list) list \<Rightarrow> 's world
     \<Rightarrow> (error + (string \<times> item list) list) \<times> 's world" where
  "do_batch_get_loop dynamodb tries sleepy_time batch_keys retrieved w =
     (if tries < max_tries then
        (case batch_get_item dynamodb batch_keys (store w) of
           (Inl err, s) \<Rightarrow> (Inl err, emit [Batch_get_item batch_keys] (w\<lparr>store := s\<rparr>))
         | (Inr response, s) \<Rightarrow>
             (let w1 = emit [Batch_get_item batch_keys] (w\<lparr>store := s\<rparr>) in
              case collect retrieved (case Responses response of None \<Rightarrow> [] | Some r \<Rightarrow> r) of
                Inl err \<Rightarrow> (Inl err, w1)
              | Inr retrieved1 \<Rightarrow>
                  (case UnprocessedKeys response of
                     None \<Rightarrow> (Inl (KeyError ''UnprocessedKeys''), w1)
                   | Some unprocessed \<Rightarrow>
                       if length unprocessed > 0 then
                         (let unprocessed_count = sum_list (map (\<lambda>(t, ks). length ks) unprocessed);
                              w2 = emit [Log_info ''%s unprocessed keys returned. Sleep, then retry.''
                                           [N (int unprocessed_count)]] w1
                          in if tries + 1 < max_tries then
                               do_batch_get_loop dynamodb (tries + 1) (min (sleepy_time * 2) 32)
                                 unprocessed retrieved1
                                 (emit [Log_info ''Sleeping for %s seconds.'' [N (int sleepy_time)],
                                        Sleep sleepy_time] w2)
                             else
                               do_batch_get_loop dynamodb (tries + 1) sleepy_time
                                 unprocessed retrieved1 w2)
                       else (Inr retrieved1, w1))))
      else (Inr retrieved, w))"
  by pat_completeness auto
termination
  by (relation "measure (\<lambda>(dynamodb, tries, sleepy_time, batch_keys, retrieved, w). max_tries - tries)")
     auto

definition do_batch_get ::
    "'s dynamodb \<Rightarrow> batch_keys \<Rightarrow> 's world
     \<Rightarrow> (error + (string \<times> item list) list) \<times> 's world" where
  "do_batch_get dynamodb batch_keys w =
     do_batch_get_loop dynamodb 0 1 batch_keys (map (\<lambda>(key, ks). (key, [])) batch_keys) w"

text \<open>The requests sent and the sleeps taken, read off the events.\<close>

fun calls_of :: "event list \<Rightarrow> batch_keys list" where
  "calls_of [] = []"
| "calls_of (Batch_get_item k # es) = k # calls_of es"
| "calls_of (e # es) = calls_of es"

fun sleeps_of :: "event list \<Rightarrow> nat list" where
  "sleeps_of [] = []"
| "sleeps_of (Sleep d # es) = d # sleeps_of es"
| "sleeps_of (e # es) = sleeps_of es"

text \<open>
  The handler \<open>except ClientError as err: logger.error(...); raise\<close>: a \<open>ClientError\<close> is
  logged with its code and message after the given arguments, and every exception goes
  on to the caller.
\<close>

definition on_client_error :: "string \<Rightarrow> attr list \<Rightarrow> error \<Rightarrow> 's world \<Rightarrow> (error + 'a) \<times> 's world" where
  "on_client_error fmt args err w =
     (case err of
        ClientError code msg \<Rightarrow> (Inl err, emit [Log_error fmt (args @ [S code, S msg])] w)
      | _ \<Rightarrow> (Inl err, w))"

text \<open>\<open>DynamoDBTable.exists\<close>: the handle is stored only when \<open>load\<close> succeeds.\<close>

definition exists_table :: "'s dynamodb \<Rightarrow> string \<Rightarrow> 's world \<Rightarrow> (error + bool) \<times> 's world" where
  "exists_table dyn_resource table_name w =
     (case load dyn_resource table_name (store w) of
        (Inr u, s) \<Rightarrow> (Inr True, w\<lparr>store := s, table := Some table_name\<rparr>)
      | (Inl err, s) \<Rightarrow>
          (case err of
             ClientError code msg \<Rightarrow>
               if code = ''ResourceNotFoundException'' then (Inr False, w\<lparr>store := s\<rparr>)
               else (Inl err,
                     emit [Log_error ''Couldn't check for existence of %s. Here's why: %s: %s''
                             [S table_name, S code, S msg]] (w\<lparr>store := s\<rparr>))
           | _ \<Rightarrow> (Inl err, w\<lparr>store := s\<rparr>)))"

text \<open>
  \<open>DynamoDBTable.create_table\<close>: \<open>self.table\<close> is assigned when the resource's
  \<open>create_table\<close> has returned, before \<open>wait_until_exists\<close> is called on it.
  \<open>create_table_arguments\<close> are the keyword arguments of that call.
\<close>

definition create_table_arguments :: "string \<Rightarrow> table_spec" where
  "create_table_arguments table_name =
     \<lparr>TableName = table_name,
      KeySchema = [(''train_set'', ''HASH''), (''image_name'', ''RANGE'')],
      AttributeDefinitions = [(''train_set'', ''N''), (''image_name'', ''S'')],
      ProvisionedThroughput = (10, 10)\<rparr>"

definition create_table :: "'s dynamodb \<Rightarrow> string \<Rightarrow> 's world \<Rightarrow> (error + string) \<times> 's world" where
  "create_table dyn_resource table_name w =
     (case resource_create_table dyn_resource (create_table_arguments table_name) (store w) of
        (Inl err, s) \<Rightarrow>
          on_client_error ''Couldn't create table %s. Here's why: %s: %s'' [S table_name] err
            (w\<lparr>store := s\<rparr>)
      | (Inr t, s) \<Rightarrow>
          (let w1 = w\<lparr>store := s, table := Some t\<rparr> in
           case wait_until_exists dyn_resource t s of
             (Inl err, s1) \<Rightarrow>
               on_client_error ''Couldn't create table %s. Here's why: %s: %s'' [S table_name] err
                 (w1\<lparr>store := s1\<rparr>)
           | (Inr u, s1) \<Rightarrow> (Inr t, w1\<lparr>store := s1\<rparr>)))"

text \<open>
  \<open>DynamoDBTable.delete_table\<close>: with no handle, \<open>self.table.delete\<close> is an attribute
  access on \<open>None\<close>; \<open>self.table = None\<close> runs only after \<open>delete\<close> has returned.
\<close>

definition delete_table :: "'s dynamodb \<Rightarrow> 's world \<Rightarrow> (error + unit) \<times> 's world" where
  "delete_table dyn_resource w =
     (case table w of
        None \<Rightarrow> (Inl AttributeError, w)
      | Some t \<Rightarrow>
          (case delete dyn_resource t (store w) of
             (Inl err, s) \<Rightarrow>
               on_client_error ''Couldn't delete table. Here's why: %s: %s'' [] err (w\<lparr>store := s\<rparr>)
           | (Inr u, s) \<Rightarrow> (Inr (), w\<lparr>store := s, table := None\<rparr>)))"

text \<open>
  \<open>DynamoDBTable.write_batch\<close>: every entry is handed to the writer of
  \<open>self.table.batch_writer()\<close>, which sends them to the service.
\<close>

definition write_batch :: "'s dynamodb \<Rightarrow> item list \<Rightarrow> 's world \<Rightarrow> (error + unit) \<times> 's world" where
  "write_batch dyn_resource entries w =
     (case table w of
        None \<Rightarrow> (Inl AttributeError, w)
      | Some t \<Rightarrow>
          (case batch_writer dyn_resource t entries (store w) of
             (Inl err, s) \<Rightarrow>
               on_client_error ''Couldn't load data into table %s. Here's why: %s: %s'' [S t] err
                 (w\<lparr>store := s\<rparr>)
           | (Inr u, s) \<Rightarrow> (Inr (), w\<lparr>store := s\<rparr>)))"

text \<open>
  \<open>DynamoDBTable.get_entry\<close>: the key is \<open>{"image_name": image_name, "is_train": is_train}\<close>,
  and the result is \<open>response["Item"]\<close>, read outside the \<open>try\<close> block.
\<close>

definition get_entry :: "'s dynamodb \<Rightarrow> string \<Rightarrow> int \<Rightarrow> 's world \<Rightarrow> (error + item) \<times> 's world" where
  "get_entry dyn_resource image_name is_train w =
     (case table w of
        None \<Rightarrow> (Inl AttributeError, w)
      | Some t \<Rightarrow>
          (case get_item dyn_resource t [(''image_name'', S image_name), (''is_train'', N is_train)]
                  (store w) of
             (Inl err, s) \<Rightarrow>
               on_client_error ''Couldn't get entry %s from table %s. Here's why: %s: %s''
                 [S image_name, S t] err (w\<lparr>store := s\<rparr>)
           | (Inr response, s) \<Rightarrow>
               (case response of
                  None \<Rightarrow> (Inl (KeyError ''Item''), w\<lparr>store := s\<rparr>)
                | Some entry \<Rightarrow> (Inr entry, w\<lparr>store := s\<rparr>))))"

section \<open>A reference model of the service\<close>

text \<open>
  The service itself is not part of the program. This model of it is what the client is
  run against on concrete inputs: tables by name, each with the key schema and attribute
  types it was created with and its items. A key must name exactly the attributes of the
  key schema, with values of the declared types; the service rejects any other key with
  \<open>ValidationException\<close>.
\<close>

record ddb_table =
  key_schema :: "(string \<times> string) list"
  attribute_types :: "(string \<times> string) list"
  rows :: "item list"

type_synonym ddb = "(string \<times> ddb_table) list"

fun has_type :: "attr \<Rightarrow> string \<Rightarrow> bool" where
  "has_type (N n) ty = (ty = ''N'')"
| "has_type (S s) ty = (ty = ''S'')"
| "has_type (L l) ty = False"

definition key_matches_schema :: "ddb_table \<Rightarrow> item \<Rightarrow> bool" where
  "key_matches_schema tb key =
     (distinct (map fst key)
      \<and> list_all (\<lambda>(a, kt). a \<in> set (map fst key)) (key_schema tb)
      \<and> list_all (\<lambda>(a, v). a \<in> set (map fst (key_schema tb))
                   \<and> (case map_of (attribute_types tb) a of
                        None \<Rightarrow> False
                      | Some ty \<Rightarrow> has_type v ty)) key)"

definition key_of :: "ddb_table \<Rightarrow> item \<Rightarrow> item" where
  "key_of tb row = filter (\<lambda>(a, v). a \<in> set (map fst (key_schema tb))) row"

definition has_key :: "item \<Rightarrow> item \<Rightarrow> bool" where
  "has_key key row = list_all (\<lambda>(a, v). map_of row a = Some v) key"

definition not_found :: error where
  "not_found = ClientError ''ResourceNotFoundException'' ''Requested resource not found''"

definition ddb_load :: "string \<Rightarrow> ddb \<Rightarrow> (error + unit) \<times> ddb" where
  "ddb_load name s = (case map_of s name of None \<Rightarrow> (Inl not_found, s) | Some tb \<Rightarrow> (Inr (), s))"

definition ddb_create_table :: "table_spec \<Rightarrow> ddb \<Rightarrow> (error + string) \<times> ddb" where
  "ddb_create_table spec s =
     (case map_of s (TableName spec) of
        Some tb \<Rightarrow> (Inl (ClientError ''ResourceInUseException'' ''Table already exists''), s)
      | None \<Rightarrow>
          (Inr (TableName spec),
           s @ [(TableName spec,
                 \<lparr>key_schema = KeySchema spec,
                  attribute_types = AttributeDefinitions spec,
                  rows = []\<rparr>)]))"

definition ddb_wait_until_exists :: "string \<Rightarrow> ddb \<Rightarrow> (error + unit) \<times> ddb" where
  "ddb_wait_until_exists name s =
     (case map_of s name of None \<Rightarrow> (Inl WaiterError, s) | Some tb \<Rightarrow> (Inr (), s))"

definition ddb_delete :: "string \<Rightarrow> ddb \<Rightarrow> (error + unit) \<times> ddb" where
  "ddb_delete name s =
     (case map_of s name of
        None \<Rightarrow> (Inl not_found, s)
      | Some tb \<Rightarrow> (Inr (), AList.delete name s))"

text \<open>
  The batch writer sends the items in requests of 25. A request is rejected when an
  item lacks a key attribute or two of its items have the same key; the requests sent
  before it stay written. A put replaces the item with the same key.
\<close>

function chunks :: "nat \<Rightarrow> 'a list \<Rightarrow> 'a list list" where
  "chunks n xs = (if n = 0 \<or> xs = [] then [] else take n xs # chunks n (drop n xs))"
  by pat_completeness auto
termination
  by (relation "measure (\<lambda>(n, xs). length xs)") auto

definition put_row :: "ddb_table \<Rightarrow> item \<Rightarrow> ddb_table" where
  "put_row tb row =
     tb\<lparr>rows := filter (\<lambda>r. \<not> has_key (key_of tb row) r) (rows tb) @ [row]\<rparr>"

definition put_request :: "ddb_table \<Rightarrow> item list \<Rightarrow> error + ddb_table" where
  "put_request tb request =
     (if \<not> list_all (\<lambda>row. key_matches_schema tb (key_of tb row)) request then
        Inl (ClientError ''ValidationException''
               ''One of the required keys was not given a value'')
      else if \<not> distinct (map (key_of tb) request) then
        Inl (ClientError ''ValidationException''
               ''Provided list of item keys contains duplicates'')
      else Inr (fold (\<lambda>row t. put_row t row) request tb))"

fun put_requests :: "ddb_table \<Rightarrow> item list list \<Rightarrow> (error + unit) \<times> ddb_table" where
  "put_requests tb [] = (Inr (), tb)"
| "put_requests tb (request # rest) =
     (case put_request tb request of
        Inl err \<Rightarrow> (Inl err, tb)
      | Inr tb1 \<Rightarrow> put_requests tb1 rest)"

definition ddb_batch_writer :: "string \<Rightarrow> item list \<Rightarrow> ddb \<Rightarrow> (error + unit) \<times> ddb" where
  "ddb_batch_writer name entries s =
     (case map_of s name of
        None \<Rightarrow> (if entries = [] then (Inr (), s) else (Inl not_found, s))
      | Some tb \<Rightarrow>
          (case put_requests tb (chunks 25 entries) of
             (r, tb1) \<Rightarrow> (r, AList.update name tb1 s)))"

definition ddb_get_item :: "string \<Rightarrow> item \<Rightarrow> ddb \<Rightarrow> (error + item option) \<times> ddb" where
  "ddb_get_item name key s =
     (case map_of s name of
        None \<Rightarrow> (Inl not_found, s)
      | Some tb \<Rightarrow>
          if \<not> key_matches_schema tb key then
            (Inl (ClientError ''ValidationException''
                    ''The provided key element does not match the schema''), s)
          else (Inr (find (has_key key) (rows tb)), s))"

fun ddb_get_tables :: "ddb \<Rightarrow> batch_keys \<Rightarrow> error + (string \<times> item list) list" where
  "ddb_get_tables s [] = Inr []"
| "ddb_get_tables s ((name, keys) # rest) =
     (case map_of s name of
        None \<Rightarrow> Inl not_found
      | Some tb \<Rightarrow>
          if \<not> list_all (key_matches_schema tb) keys then
            Inl (ClientError ''ValidationException''
                   ''The provided key element does not match the schema'')
          else
            (case ddb_get_tables s rest of
               Inl err \<Rightarrow> Inl err
             | Inr found \<Rightarrow>
                 Inr ((name, concat (map (\<lambda>key. filter (has_key key) (rows tb)) keys)) # found)))"

definition ddb_batch_get_item :: "batch_keys \<Rightarrow> ddb \<Rightarrow> (error + batch_get_response) \<times> ddb" where
  "ddb_batch_get_item request s =
     (if sum_list (map (\<lambda>(name, keys). length keys) request) > 100 then
        (Inl (ClientError ''ValidationException''
                ''Too many items requested for the BatchGetItem call''), s)
      else
        (case ddb_get_tables s request of
           Inl err \<Rightarrow> (Inl err, s)
         | Inr found \<Rightarrow> (Inr \<lparr>Responses = Some found, UnprocessedKeys = Some []\<rparr>, s)))"

definition service :: "ddb dynamodb" where
  "service =
     \<lparr>load = ddb_load,
      resource_create_table = ddb_create_table,
      wait_until_exists = ddb_wait_until_exists,
      delete = ddb_delete,
      batch_writer = ddb_batch_writer,
      get_item = ddb_get_item,
      batch_get_item = ddb_batch_get_item\<rparr>"

section \<open>Executions of the batched read\<close>

text \<open>\<open>response.get("Responses", [])\<close>\<close>

definition responses_of :: "batch_get_response \<Rightarrow> (string \<times> item list) list" where
  "responses_of response = (case Responses response of None \<Rightarrow> [] | Some r \<Rightarrow> r)"

text \<open>What the successive responses \<open>rs\<close> add to the accumulator \<open>retrieved\<close>.\<close>

fun collect_all :: "(string \<times> item list) list \<Rightarrow> batch_get_response list
    \<Rightarrow> error + (string \<times> item list) list" where
  "collect_all retrieved [] = Inr retrieved"
| "collect_all retrieved (r # rs) =
     (case collect retrieved (responses_of r) of
        Inl err \<Rightarrow> Inl err
      | Inr retrieved1 \<Rightarrow> collect_all retrieved1 rs)"

text \<open>
  \<open>answers dynamodb ks s rs\<close>: asked for \<open>ks\<close> in state \<open>s\<close>, the service answers the
  successive attempts with the responses \<open>rs\<close>, each of them reporting unprocessed keys,
  which are the request of the next attempt.
\<close>

fun answers :: "'s dynamodb \<Rightarrow> batch_keys \<Rightarrow> 's \<Rightarrow> batch_get_response list \<Rightarrow> bool" where
  "answers dynamodb ks s [] = True"
| "answers dynamodb ks s (r # rs) =
     (case batch_get_item dynamodb ks s of
        (Inl err, s1) \<Rightarrow> False
      | (Inr response, s1) \<Rightarrow>
          response = r \<and>
          (case UnprocessedKeys r of
             None \<Rightarrow> False
           | Some unprocessed \<Rightarrow> unprocessed \<noteq> [] \<and> answers dynamodb unprocessed s1 rs))"

text \<open>The requests of such an execution: the first one, then the unprocessed keys.\<close>

fun requests :: "batch_keys \<Rightarrow> batch_get_response list \<Rightarrow> batch_keys list" where
  "requests ks [] = []"
| "requests ks (r # rs) =
     ks # requests (case UnprocessedKeys r of None \<Rightarrow> [] | Some u \<Rightarrow> u) rs"

text \<open>The unprocessed keys a response reports, and the items it holds for a table.\<close>

definition unprocessed_of :: "batch_get_response \<Rightarrow> batch_keys" where
  "unprocessed_of r = (case UnprocessedKeys r of None \<Rightarrow> [] | Some u \<Rightarrow> u)"

definition items_of :: "batch_get_response \<Rightarrow> string \<Rightarrow> item list" where
  "items_of r key = (case map_of (responses_of r) key of None \<Rightarrow> [] | Some found \<Rightarrow> found)"

text \<open>
  What the responses \<open>rs\<close> hold for a table, one response after the other: the items
  that the caller of \<open>do_batch_get\<close> is to find under that table.
\<close>

definition gathered :: "string \<Rightarrow> batch_get_response list \<Rightarrow> item list" where
  "gathered key rs = concat (map (\<lambda>r. items_of r key) rs)"

text \<open>
  The \<open>Responses\<close> of a response are a dict, so no table occurs twice in them, and the
  service answers for requested tables only.
\<close>

definition names_requested :: "string list \<Rightarrow> batch_get_response list \<Rightarrow> bool" where
  "names_requested tables rs =
     list_all (\<lambda>r. distinct (map fst (responses_of r))
                  \<and> list_all (\<lambda>key. key \<in> set tables) (map fst (responses_of r))) rs"

text \<open>The requests and the sleeps among the events, in the order they happen.\<close>

fun steps_of :: "event list \<Rightarrow> event list" where
  "steps_of [] = []"
| "steps_of (Batch_get_item k # es) = Batch_get_item k # steps_of es"
| "steps_of (Sleep d # es) = Sleep d # steps_of es"
| "steps_of (e # es) = steps_of es"

text \<open>
  The requests and sleeps of an execution answered by \<open>rs\<close>, from the request \<open>ks\<close> and
  the delay \<open>d\<close>: a sleep follows every request but the last.
\<close>

fun steps :: "nat \<Rightarrow> batch_keys \<Rightarrow> batch_get_response list \<Rightarrow> event list" where
  "steps d ks [] = []"
| "steps d ks [r] = [Batch_get_item ks]"
| "steps d ks (r # r1 # rs) =
     Batch_get_item ks # Sleep d # steps (min (d * 2) 32) (unprocessed_of r) (r1 # rs)"

text \<open>\<open>n\<close> successive values of \<open>sleepy_time\<close>, from \<open>d\<close>.\<close>

fun delays :: "nat \<Rightarrow> nat \<Rightarrow> nat list" where
  "delays d 0 = []"
| "delays d (Suc n) = d # delays (min (d * 2) 32) n"

section \<open>Concrete inputs\<close>

definition image_item :: item where
  "image_item =
     [(''image_name'', S ''2002/08/11/big/img_591''), (''num_faces'', N 1),
      (''faces'', L [S ''123.583300 85.549500 1.265839 269.693400 161.781200  1'']),
      (''train_set'', N 1)]"

definition image_key :: item where
  "image_key = [(''train_set'', N 1), (''image_name'', S ''2002/08/11/big/img_591'')]"

definition batch_request :: batch_keys where
  "batch_request = [(''facial-detection-dataset'', [image_key])]"

text \<open>The state of the service with the table of the program and one item in it.\<close>

definition one_item_store :: ddb where
  "one_item_store =
     [(''facial-detection-dataset'',
       \<lparr>key_schema = [(''train_set'', ''HASH''), (''image_name'', ''RANGE'')],
        attribute_types = [(''train_set'', ''N''), (''image_name'', ''S'')],
        rows = [image_item]\<rparr>)]"

definition start :: "ddb \<Rightarrow> ddb world" where
  "start s = \<lparr>table = None, store = s, events = []\<rparr>"

text \<open>A service that processes no key: it hands every request back as unprocessed.\<close>

definition throttled_response :: "batch_keys \<Rightarrow> batch_get_response" where
  "throttled_response ks = \<lparr>Responses = Some [], UnprocessedKeys = Some ks\<rparr>"

definition throttled :: "ddb dynamodb" where
  "throttled = service\<lparr>batch_get_item := (\<lambda>ks s. (Inr (throttled_response ks), s))\<rparr>"

text \<open>Two more records, as \<open>map_list_to_json\<close> builds them.\<close>

definition second_item :: item where
  "second_item =
     [(''image_name'', S ''2002/08/26/big/img_265''), (''num_faces'', N 3),
      (''faces'', L []), (''train_set'', N 1)]"

definition third_item :: item where
  "third_item =
     [(''image_name'', S ''2002/07/19/big/img_423''), (''num_faces'', N 0),
      (''faces'', L []), (''train_set'', N 1)]"

text \<open>
  A service that processes one key of a request and hands the others back as
  unprocessed, and a request of six keys, three of them of items in the table.
\<close>

definition one_key_response :: "ddb \<Rightarrow> batch_keys \<Rightarrow> batch_get_response" where
  "one_key_response s ks =
     (case ks of
        [] \<Rightarrow> \<lparr>Responses = Some [], UnprocessedKeys = Some []\<rparr>
      | (name, keys) # rest \<Rightarrow>
          (case keys of
             [] \<Rightarrow> \<lparr>Responses = Some [(name, [])], UnprocessedKeys = Some rest\<rparr>
           | key # keys1 \<Rightarrow>
               \<lparr>Responses =
                  Some [(name, case map_of s name of
                                 None \<Rightarrow> []
                               | Some tb \<Rightarrow> filter (has_key key) (rows tb))],
                UnprocessedKeys = Some (if keys1 = [] then rest else (name, keys1) # rest)\<rparr>))"

definition one_key_per_call :: "ddb dynamodb" where
  "one_key_per_call =
     service\<lparr>batch_get_item := (\<lambda>ks s. (Inr (one_key_response s ks), s))\<rparr>"

definition key_for :: "string \<Rightarrow> item" where
  "key_for image_name = [(''train_set'', N 1), (''image_name'', S image_name)]"

definition request_for :: "string list \<Rightarrow> batch_keys" where
  "request_for image_names = [(''facial-detection-dataset'', map key_for image_names)]"

definition three_item_store :: ddb where
  "three_item_store =
     [(''facial-detection-dataset'',
       \<lparr>key_schema = [(''train_set'', ''HASH''), (''image_name'', ''RANGE'')],
        attribute_types = [(''train_set'', ''N''), (''image_name'', ''S'')],
        rows = [image_item, second_item, third_item]\<rparr>)]"

text \<open>
  A service whose credentials may read but not create: every \<open>create_table\<close> is refused.
\<close>

definition read_only :: "ddb dynamodb" where
  "read_only =
     service\<lparr>resource_create_table :=
       (\<lambda>spec s. (Inl (ClientError ''AccessDeniedException''
                           ''User is not authorized to perform: dynamodb:CreateTable''), s))\<rparr>"

text \<open>
  The state of the service with an empty table whose key schema has the attribute names
  that \<open>get_entry\<close> uses.
\<close>

definition is_train_store :: ddb where
  "is_train_store =
     [(''facial-detection-dataset'',
       \<lparr>key_schema = [(''is_train'', ''HASH''), (''image_name'', ''RANGE'')],
        attribute_types = [(''is_train'', ''N''), (''image_name'', ''S'')],
        rows = []\<rparr>)]"

section \<open>Proofs\<close>

declare do_batch_get_loop.simps [simp del]

subsection \<open>Grouping of lines\<close>

lemma split_loop_concat:
  "concat (split_loop e result sublist' xs) = concat result @ sublist' @ xs"
  by (induction xs arbitrary: result sublist') simp_all

lemma split_loop_nonempty:
  "[] \<notin> set result \<Longrightarrow> [] \<notin> set (split_loop e result sublist' xs)"
  by (induction xs arbitrary: result sublist') simp_all

text \<open>
  C4. For every sequence of lines and every split element, \<open>split_list_on_element\<close>
  returns no empty group, and the groups concatenated in order are the input sequence.
\<close>

theorem split_list_on_element_groups:
  "[] \<notin> set (split_list_on_element input_list split_element)
   \<and> concat (split_list_on_element input_list split_element) = input_list"
  by (simp add: split_list_on_element_def split_loop_concat split_loop_nonempty)

subsection \<open>Building a record\<close>

lemma parse_digits_error: "parse_digits acc s = Inl e \<Longrightarrow> e = ValueError"
  by (induction acc s rule: parse_digits.induct) (auto split: if_splits)

lemma py_int_error: "py_int s = Inl e \<Longrightarrow> e = ValueError"
  unfolding py_int_def Let_def
  by (auto split: if_splits sum.splits dest: parse_digits_error)

lemmas py_int_eval = py_int_def strip_def is_space_def is_digit_def digit_val_def Let_def
  max_str_digits_def is_ascii_def

text \<open>
  C5, as the code has it. A group \<open>[name, cnt, f1..fn]\<close> whose second line \<open>int\<close> reads as
  \<open>n\<close> gives the record with \<open>image_name = name\<close>, \<open>num_faces = n\<close>, \<open>faces = [f1..fn]\<close>
  and \<open>train_set = 1\<close>. A group of fewer than two lines raises \<open>IndexError\<close>, and a group
  whose second line is ASCII text that \<open>int\<close> does not read raises \<open>ValueError\<close>.
\<close>

theorem map_list_to_json_contract:
  "(py_int cnt = Inr n \<longrightarrow>
      map_list_to_json (name # cnt # fs) =
        Inr [(''image_name'', S name), (''num_faces'', N n),
             (''faces'', L (map S fs)), (''train_set'', N 1)])
   \<and> (length x < 2 \<longrightarrow> map_list_to_json x = Inl IndexError)
   \<and> (is_ascii bad \<and> (\<forall>n. py_int bad \<noteq> Inr n)
        \<longrightarrow> map_list_to_json (name # bad # fs) = Inl ValueError)"
proof (intro conjI impI)
  assume "py_int cnt = Inr n"
  then show "map_list_to_json (name # cnt # fs) =
        Inr [(''image_name'', S name), (''num_faces'', N n),
             (''faces'', L (map S fs)), (''train_set'', N 1)]"
    by (simp add: map_list_to_json_def list_get_def)
next
  assume "length x < 2"
  then show "map_list_to_json x = Inl IndexError"
    by (cases x) (auto simp: map_list_to_json_def list_get_def)
next
  assume "is_ascii bad \<and> (\<forall>n. py_int bad \<noteq> Inr n)"
  then obtain e where "py_int bad = Inl e" by (cases "py_int bad") auto
  moreover from this have "e = ValueError" by (rule py_int_error)
  ultimately show "map_list_to_json (name # bad # fs) = Inl ValueError"
    by (simp add: map_list_to_json_def list_get_def)
qed

theorem map_list_to_json_contract_witness:
  "py_int ''2'' = Inr 2
   \<and> map_list_to_json [''2002/08/11/big/img_591'', ''2'', ''f1'', ''f2''] =
        Inr [(''image_name'', S ''2002/08/11/big/img_591''), (''num_faces'', N 2),
             (''faces'', L [S ''f1'', S ''f2'']), (''train_set'', N 1)]
   \<and> length [''2002/08/11/big/img_591''] < 2
   \<and> map_list_to_json [''2002/08/11/big/img_591''] = Inl IndexError
   \<and> is_ascii ''two''
   \<and> (\<forall>n. py_int ''two'' \<noteq> Inr n)
   \<and> map_list_to_json [''2002/08/11/big/img_591'', ''two'', ''f1'', ''f2''] = Inl ValueError"
  using map_list_to_json_contract [of "''2''" 2 "''2002/08/11/big/img_591''"
      "[''f1'', ''f2'']" "[''2002/08/11/big/img_591'']" "''two''"]
  by (simp add: py_int_eval)

text \<open>
  The claim names the failure \<open>MalformedGroupError\<close>: the exceptions raised on a group of
  one line and on a count that is not a number are \<open>IndexError\<close> and \<open>ValueError\<close>.
\<close>

theorem map_list_to_json_error_counterexample:
  "map_list_to_json [''2002/08/11/big/img_591''] = Inl IndexError
   \<and> exception_name IndexError \<noteq> ''MalformedGroupError''
   \<and> map_list_to_json [''2002/08/11/big/img_591'', ''two''] = Inl ValueError
   \<and> exception_name ValueError \<noteq> ''MalformedGroupError''"
  by (simp add: map_list_to_json_def list_get_def py_int_eval)

subsection \<open>The batched read with backoff\<close>

lemma calls_of_append: "calls_of (xs @ ys) = calls_of xs @ calls_of ys"
  by (induction xs rule: calls_of.induct) simp_all

lemma sleeps_of_append: "sleeps_of (xs @ ys) = sleeps_of xs @ sleeps_of ys"
  by (induction xs rule: sleeps_of.induct) simp_all

lemma loop_result:
  "answers d ks (store w) rs \<Longrightarrow> tries + length rs = max_tries \<Longrightarrow>
   collect_all acc rs = Inr acc1 \<Longrightarrow>
   fst (do_batch_get_loop d tries sl ks acc w) = Inr acc1"
proof (induction rs arbitrary: tries sl ks acc w)
  case Nil
  then show ?case by (simp add: do_batch_get_loop.simps)
next
  case (Cons r rs)
  then show ?case
    by (subst do_batch_get_loop.simps)
       (auto simp: responses_of_def emit_def Let_def split: prod.splits sum.splits option.splits)
qed

lemma loop_calls:
  "answers d ks (store w) rs \<Longrightarrow> tries + length rs = max_tries \<Longrightarrow>
   collect_all acc rs = Inr acc1 \<Longrightarrow>
   calls_of (events (snd (do_batch_get_loop d tries sl ks acc w))) =
     calls_of (events w) @ requests ks rs"
proof (induction rs arbitrary: tries sl ks acc w)
  case Nil
  then show ?case by (simp add: do_batch_get_loop.simps)
next
  case (Cons r rs)
  then show ?case
    by (subst do_batch_get_loop.simps)
       (auto simp: responses_of_def emit_def Let_def calls_of_append
             split: prod.splits sum.splits option.splits)
qed

lemma loop_sleeps:
  "answers d ks (store w) rs \<Longrightarrow> tries + length rs = max_tries \<Longrightarrow>
   collect_all acc rs = Inr acc1 \<Longrightarrow>
   sleeps_of (events (snd (do_batch_get_loop d tries sl ks acc w))) =
     sleeps_of (events w) @ delays sl (length rs - 1)"
proof (induction rs arbitrary: tries sl ks acc w)
  case Nil
  then show ?case by (simp add: do_batch_get_loop.simps)
next
  case (Cons r rs)
  then show ?case
    by (subst do_batch_get_loop.simps, cases rs)
       (auto simp: responses_of_def emit_def Let_def sleeps_of_append
             split: prod.splits sum.splits option.splits)
qed

lemma length_requests: "length (requests ks rs) = length rs"
  by (induction rs arbitrary: ks) simp_all

lemma loop_once:
  assumes "batch_get_item d ks (store w) = (Inr response, s)"
    and "UnprocessedKeys response = Some []"
    and "collect acc (responses_of response) = Inr acc1"
    and "tries < max_tries"
  shows "do_batch_get_loop d tries sl ks acc w =
           (Inr acc1, emit [Batch_get_item ks] (w\<lparr>store := s\<rparr>))"
  using assms
  by (subst do_batch_get_loop.simps) (simp add: responses_of_def)

lemma collect_keys: "collect r xs = Inr r1 \<Longrightarrow> map fst r1 = map fst r"
proof (induction r xs rule: collect.induct)
  case (1 retrieved)
  then show ?case by simp
next
  case (2 retrieved key items rest)
  then show ?case
    by (auto split: option.splits simp: update_keys dest!: map_of_SomeD)
       (metis fst_conv image_eqI)
qed

lemma collect_all_keys: "collect_all r rs = Inr r1 \<Longrightarrow> map fst r1 = map fst r"
  by (induction rs arbitrary: r) (auto split: sum.splits dest: collect_keys)

lemma collect_self:
  "distinct (map fst (pre @ rest)) \<Longrightarrow>
   collect (pre @ map (\<lambda>(k, v). (k, [])) rest) rest = Inr (pre @ rest)"
proof (induction rest arbitrary: pre)
  case Nil
  then show ?case by simp
next
  case (Cons kv rest)
  obtain k v where kv: "kv = (k, v)" by (cases kv)
  from Cons.prems kv have nk: "k \<notin> fst ` set pre" by auto
  then have m: "map_of pre k = None" by (simp add: map_of_eq_None_iff)
  have u: "AList.update k v (pre @ (k, []) # map (\<lambda>(k, v). (k, [])) rest)
           = (pre @ [(k, v)]) @ map (\<lambda>(k, v). (k, [])) rest"
    using nk by (induction pre) auto
  have d: "distinct (map fst ((pre @ [(k, v)]) @ rest))" using Cons.prems kv by simp
  show ?case
    using Cons.IH [OF d] by (simp add: kv m u map_add_def)
qed

lemma steps_of_append: "steps_of (xs @ ys) = steps_of xs @ steps_of ys"
  by (induction xs rule: steps_of.induct) simp_all

lemma loop_steps:
  "answers d ks (store w) rs \<Longrightarrow> tries + length rs = max_tries \<Longrightarrow>
   collect_all acc rs = Inr acc1 \<Longrightarrow>
   steps_of (events (snd (do_batch_get_loop d tries sl ks acc w))) =
     steps_of (events w) @ steps sl ks rs"
proof (induction rs arbitrary: tries sl ks acc w)
  case Nil
  then show ?case by (simp add: do_batch_get_loop.simps)
next
  case (Cons r rs)
  then show ?case
    by (subst do_batch_get_loop.simps, cases rs)
       (auto simp: responses_of_def unprocessed_of_def emit_def Let_def steps_of_append
             split: prod.splits sum.splits option.splits)
qed

lemma map_absent_key:
  "k \<notin> fst ` set al \<Longrightarrow> map (\<lambda>(k1, v). (k1, if k1 = k then v @ items else v)) al = al"
  by (induction al) auto

lemma update_append_items:
  "distinct (map fst al) \<Longrightarrow> map_of al k = Some old \<Longrightarrow>
   AList.update k (old @ items) al =
     map (\<lambda>(k1, v). (k1, if k1 = k then v @ items else v)) al"
  by (induction al) (auto simp: map_absent_key rev_image_eqI dest: map_of_SomeD)

lemma collect_gathers:
  "distinct (map fst retrieved) \<Longrightarrow> distinct (map fst resp) \<Longrightarrow>
   set (map fst resp) \<subseteq> set (map fst retrieved) \<Longrightarrow>
   collect retrieved resp =
     Inr (map (\<lambda>(k, v). (k, v @ (case map_of resp k of None \<Rightarrow> [] | Some found \<Rightarrow> found)))
            retrieved)"
proof (induction resp arbitrary: retrieved)
  case Nil
  then show ?case by (simp add: case_prod_beta)
next
  case (Cons kv resp)
  obtain k items where kv: "kv = (k, items)" by (cases kv)
  from Cons.prems(3) kv have "k \<in> fst ` set retrieved" by simp
  then obtain old where old: "map_of retrieved k = Some old"
    by (metis domD dom_map_of_conv_image_fst)
  let ?r = "map (\<lambda>(k1, v). (k1, if k1 = k then v @ items else v)) retrieved"
  have u: "AList.update k (old @ items) retrieved = ?r"
    using Cons.prems(1) old by (rule update_append_items)
  have keys: "map fst ?r = map fst retrieved" by (induction retrieved) auto
  have nk: "map_of resp k = None"
    using Cons.prems(2) kv by (simp add: map_of_eq_None_iff)
  have ih: "collect ?r resp =
      Inr (map (\<lambda>(k, v). (k, v @ (case map_of resp k of None \<Rightarrow> [] | Some found \<Rightarrow> found))) ?r)"
    using Cons.prems kv by (intro Cons.IH) (simp_all only: keys, simp_all)
  show ?case
    by (simp add: kv old u ih nk case_prod_beta)
qed

lemma collect_all_gathers:
  "distinct (map fst retrieved) \<Longrightarrow> names_requested (map fst retrieved) rs \<Longrightarrow>
   collect_all retrieved rs = Inr (map (\<lambda>(k, v). (k, v @ gathered k rs)) retrieved)"
proof (induction rs arbitrary: retrieved)
  case Nil
  then show ?case by (simp add: gathered_def case_prod_beta)
next
  case (Cons r rs)
  let ?r = "map (\<lambda>(k, v). (k, v @ items_of r k)) retrieved"
  have c: "collect retrieved (responses_of r) = Inr ?r"
    unfolding items_of_def using Cons.prems
    by (intro collect_gathers) (auto simp: names_requested_def list_all_iff)
  have keys: "map fst ?r = map fst retrieved" by (induction retrieved) auto
  have ih: "collect_all ?r rs = Inr (map (\<lambda>(k, v). (k, v @ gathered k rs)) ?r)"
    using Cons.prems by (intro Cons.IH) (simp_all only: keys, simp_all add: names_requested_def)
  show ?case
    by (simp add: c ih gathered_def case_prod_beta)
qed

lemma collect_all_initial:
  assumes "distinct (map fst batch_keys)" and "names_requested (map fst batch_keys) rs"
  shows "collect_all (map (\<lambda>(key, ks). (key, [])) batch_keys) rs =
           Inr (map (\<lambda>(key, ks). (key, gathered key rs)) batch_keys)"
proof -
  have k: "map fst (map (\<lambda>(key, ks). (key, []::item list)) batch_keys) = map fst batch_keys"
    by (induction batch_keys) auto
  show ?thesis
    using assms collect_all_gathers [of "map (\<lambda>(key, ks). (key, [])) batch_keys" rs]
    by (simp only: k) (simp add: case_prod_beta)
qed

text \<open>
  C2, as the code has it. In an execution where each of the five attempts is answered
  with unprocessed keys (the request names no table twice, and the responses name
  requested tables only, none twice), \<open>do_batch_get\<close> returns, for every requested
  table, the items that the five responses hold for it, one response after the other.
  It sends exactly five requests, the first one and then the unprocessed keys of each
  answer, and it sleeps four times, once between two successive requests, for 1, 2, 4
  and 8 seconds: the fifth request is the last step, no sleep follows it.
\<close>

theorem do_batch_get_worst_case:
  assumes "answers dynamodb batch_keys (store w) [r0, r1, r2, r3, r4]"
    and "distinct (map fst batch_keys)"
    and "names_requested (map fst batch_keys) [r0, r1, r2, r3, r4]"
  shows "fst (do_batch_get dynamodb batch_keys w) =
           Inr (map (\<lambda>(key, ks). (key, gathered key [r0, r1, r2, r3, r4])) batch_keys)
     \<and> steps_of (events (snd (do_batch_get dynamodb batch_keys w))) =
         steps_of (events w) @
           [Batch_get_item batch_keys, Sleep 1,
            Batch_get_item (unprocessed_of r0), Sleep 2,
            Batch_get_item (unprocessed_of r1), Sleep 4,
            Batch_get_item (unprocessed_of r2), Sleep 8,
            Batch_get_item (unprocessed_of r3)]
     \<and> calls_of (events (snd (do_batch_get dynamodb batch_keys w))) =
         calls_of (events w) @
           [batch_keys, unprocessed_of r0, unprocessed_of r1, unprocessed_of r2,
            unprocessed_of r3]
     \<and> sleeps_of (events (snd (do_batch_get dynamodb batch_keys w))) =
         sleeps_of (events w) @ [1, 2, 4, 8]"
proof -
  let ?rs = "[r0, r1, r2, r3, r4]"
  have t: "0 + length ?rs = max_tries" by (simp add: max_tries_def)
  have c: "collect_all (map (\<lambda>(key, ks). (key, [])) batch_keys) ?rs =
      Inr (map (\<lambda>(key, ks). (key, gathered key ?rs)) batch_keys)"
    using assms(2,3) by (rule collect_all_initial)
  have d: "delays 1 (length ?rs - 1) = [1, 2, 4, 8]"
    by (simp add: eval_nat_numeral)
  show ?thesis
    unfolding do_batch_get_def
    using loop_result [OF assms(1) t c] loop_steps [OF assms(1) t c]
      loop_calls [OF assms(1) t c] loop_sleeps [OF assms(1) t c] d
    by (simp add: unprocessed_of_def)
qed

lemmas inputs = batch_request_def image_key_def start_def throttled_def throttled_response_def
  responses_of_def max_tries_def

lemmas one_key_eval = one_key_per_call_def one_key_response_def request_for_def key_for_def
  three_item_store_def has_key_def image_item_def second_item_def third_item_def start_def service_def responses_of_def
  unprocessed_of_def names_requested_def gathered_def items_of_def

theorem do_batch_get_worst_case_witness:
  "answers one_key_per_call
     (request_for [''2002/08/11/big/img_591'', ''a.jpg'', ''2002/08/26/big/img_265'', ''b.jpg'',
          ''2002/07/19/big/img_423'', ''c.jpg''])
     (store (start three_item_store))
     [one_key_response three_item_store
        (request_for [''2002/08/11/big/img_591'', ''a.jpg'', ''2002/08/26/big/img_265'', ''b.jpg'',
          ''2002/07/19/big/img_423'', ''c.jpg'']),
      one_key_response three_item_store
        (request_for [''a.jpg'', ''2002/08/26/big/img_265'', ''b.jpg'', ''2002/07/19/big/img_423'',
          ''c.jpg'']),
      one_key_response three_item_store
        (request_for [''2002/08/26/big/img_265'', ''b.jpg'', ''2002/07/19/big/img_423'', ''c.jpg'']),
      one_key_response three_item_store
        (request_for [''b.jpg'', ''2002/07/19/big/img_423'', ''c.jpg'']),
      one_key_response three_item_store
        (request_for [''2002/07/19/big/img_423'', ''c.jpg''])]
   \<and> distinct (map fst (request_for [''2002/08/11/big/img_591'', ''a.jpg'', ''2002/08/26/big/img_265'', ''b.jpg'',
          ''2002/07/19/big/img_423'', ''c.jpg'']))
   \<and> names_requested (map fst (request_for [''2002/08/11/big/img_591'', ''a.jpg'', ''2002/08/26/big/img_265'', ''b.jpg'',
          ''2002/07/19/big/img_423'', ''c.jpg'']))
     [one_key_response three_item_store
        (request_for [''2002/08/11/big/img_591'', ''a.jpg'', ''2002/08/26/big/img_265'', ''b.jpg'',
          ''2002/07/19/big/img_423'', ''c.jpg'']),
      one_key_response three_item_store
        (request_for [''a.jpg'', ''2002/08/26/big/img_265'', ''b.jpg'', ''2002/07/19/big/img_423'',
          ''c.jpg'']),
      one_key_response three_item_store
        (request_for [''2002/08/26/big/img_265'', ''b.jpg'', ''2002/07/19/big/img_423'', ''c.jpg'']),
      one_key_response three_item_store
        (request_for [''b.jpg'', ''2002/07/19/big/img_423'', ''c.jpg'']),
      one_key_response three_item_store
        (request_for [''2002/07/19/big/img_423'', ''c.jpg''])]
   \<and> fst (do_batch_get one_key_per_call
        (request_for [''2002/08/11/big/img_591'', ''a.jpg'', ''2002/08/26/big/img_265'', ''b.jpg'',
          ''2002/07/19/big/img_423'', ''c.jpg''])
        (start three_item_store)) =
        Inr [(''facial-detection-dataset'', [image_item, second_item, third_item])]
   \<and> steps_of (events (snd (do_batch_get one_key_per_call
        (request_for [''2002/08/11/big/img_591'', ''a.jpg'', ''2002/08/26/big/img_265'', ''b.jpg'',
          ''2002/07/19/big/img_423'', ''c.jpg''])
        (start three_item_store)))) =
        [Batch_get_item (request_for [''2002/08/11/big/img_591'', ''a.jpg'', ''2002/08/26/big/img_265'', ''b.jpg'',
          ''2002/07/19/big/img_423'', ''c.jpg'']), Sleep 1,
         Batch_get_item (request_for [''a.jpg'', ''2002/08/26/big/img_265'', ''b.jpg'', ''2002/07/19/big/img_423'',
          ''c.jpg'']), Sleep 2,
         Batch_get_item (request_for [''2002/08/26/big/img_265'', ''b.jpg'', ''2002/07/19/big/img_423'', ''c.jpg'']), Sleep 4,
         Batch_get_item (request_for [''b.jpg'', ''2002/07/19/big/img_423'', ''c.jpg'']), Sleep 8,
         Batch_get_item (request_for [''2002/07/19/big/img_423'', ''c.jpg''])]"
  using do_batch_get_worst_case [of one_key_per_call
      "request_for [''2002/08/11/big/img_591'', ''a.jpg'', ''2002/08/26/big/img_265'', ''b.jpg'',
          ''2002/07/19/big/img_423'', ''c.jpg'']"
      "start three_item_store"
      "one_key_response three_item_store
        (request_for [''2002/08/11/big/img_591'', ''a.jpg'', ''2002/08/26/big/img_265'', ''b.jpg'',
          ''2002/07/19/big/img_423'', ''c.jpg''])"
      "one_key_response three_item_store
        (request_for [''a.jpg'', ''2002/08/26/big/img_265'', ''b.jpg'', ''2002/07/19/big/img_423'',
          ''c.jpg''])"
      "one_key_response three_item_store
        (request_for [''2002/08/26/big/img_265'', ''b.jpg'', ''2002/07/19/big/img_423'', ''c.jpg''])"
      "one_key_response three_item_store
        (request_for [''b.jpg'', ''2002/07/19/big/img_423'', ''c.jpg''])"
      "one_key_response three_item_store
        (request_for [''2002/07/19/big/img_423'', ''c.jpg''])"]
  by (simp add: one_key_eval)

text \<open>
  Against the service that processes no key, all five attempts are answered with
  unprocessed keys, and the sleeps are 1, 2, 4, 8, each between two requests: there is
  no sleep of 16.
\<close>

theorem do_batch_get_sleeps_counterexample:
  "answers throttled batch_request (store (start []))
     [throttled_response batch_request, throttled_response batch_request,
      throttled_response batch_request, throttled_response batch_request,
      throttled_response batch_request]
   \<and> steps_of (events (snd (do_batch_get throttled batch_request (start [])))) =
       [Batch_get_item batch_request, Sleep 1, Batch_get_item batch_request, Sleep 2,
        Batch_get_item batch_request, Sleep 4, Batch_get_item batch_request, Sleep 8,
        Batch_get_item batch_request]
   \<and> sleeps_of (events (snd (do_batch_get throttled batch_request (start [])))) = [1, 2, 4, 8]
   \<and> sleeps_of (events (snd (do_batch_get throttled batch_request (start [])))) \<noteq> [1, 2, 4, 8, 16]"
  by (simp add: do_batch_get_def do_batch_get_loop.simps emit_def inputs)

text \<open>
  C3. When the first answer reports no unprocessed keys, \<open>do_batch_get\<close> sends that one
  request and returns everything the answer holds. When all five attempts are answered
  with unprocessed keys, it returns the accumulator without raising; and the same value
  is returned by an execution in which the service answers the one request completely,
  so the caller cannot tell the partial result from a complete one.
\<close>

theorem do_batch_get_complete_or_partial:
  "(batch_get_item dynamodb batch_keys (store w) = (Inr response, s)
      \<and> UnprocessedKeys response = Some []
      \<and> collect (map (\<lambda>(key, ks). (key, [])) batch_keys) (responses_of response) = Inr full
    \<longrightarrow> fst (do_batch_get dynamodb batch_keys w) = Inr full
        \<and> calls_of (events (snd (do_batch_get dynamodb batch_keys w))) =
            calls_of (events w) @ [batch_keys])
   \<and> (answers dynamodb batch_keys (store w) rs \<and> length rs = max_tries
      \<and> collect_all (map (\<lambda>(key, ks). (key, [])) batch_keys) rs = Inr partial
      \<and> distinct (map fst batch_keys)
    \<longrightarrow> fst (do_batch_get dynamodb batch_keys w) = Inr partial
        \<and> fst (do_batch_get
                 (dynamodb\<lparr>batch_get_item :=
                    (\<lambda>ks s. (Inr \<lparr>Responses = Some partial, UnprocessedKeys = Some []\<rparr>, s))\<rparr>)
                 batch_keys w) = Inr partial)"
proof (intro conjI impI)
  assume a: "batch_get_item dynamodb batch_keys (store w) = (Inr response, s)
      \<and> UnprocessedKeys response = Some []
      \<and> collect (map (\<lambda>(key, ks). (key, [])) batch_keys) (responses_of response) = Inr full"
  have t: "0 < max_tries" by (simp add: max_tries_def)
  from a have a1: "batch_get_item dynamodb batch_keys (store w) = (Inr response, s)"
    and a2: "UnprocessedKeys response = Some []"
    and a3: "collect (map (\<lambda>(key, ks). (key, [])) batch_keys) (responses_of response) = Inr full"
    by simp_all
  have e: "do_batch_get dynamodb batch_keys w =
      (Inr full, emit [Batch_get_item batch_keys] (w\<lparr>store := s\<rparr>))"
    unfolding do_batch_get_def by (rule loop_once [OF a1 a2 a3 t])
  show "fst (do_batch_get dynamodb batch_keys w) = Inr full" by (simp add: e)
  show "calls_of (events (snd (do_batch_get dynamodb batch_keys w))) =
            calls_of (events w) @ [batch_keys]"
    by (simp add: e emit_def calls_of_append)
next
  assume b: "answers dynamodb batch_keys (store w) rs \<and> length rs = max_tries
      \<and> collect_all (map (\<lambda>(key, ks). (key, [])) batch_keys) rs = Inr partial
      \<and> distinct (map fst batch_keys)"
  then have t: "0 + length rs = max_tries" by simp
  from b show "fst (do_batch_get dynamodb batch_keys w) = Inr partial"
    unfolding do_batch_get_def using loop_result t by blast
  let ?init = "map (\<lambda>(key, ks). (key, []::item list)) batch_keys"
  from b have k: "map fst partial = map fst ?init" by (blast dest: collect_all_keys)
  have f: "map fst ?init = map fst batch_keys" by (induction batch_keys) auto
  have i: "?init = map (\<lambda>(k, v). (k, [])) partial"
  proof -
    have "?init = map (\<lambda>k. (k, [])) (map fst batch_keys)" by (induction batch_keys) auto
    also have "\<dots> = map (\<lambda>k. (k, [])) (map fst partial)" using k f by simp
    also have "\<dots> = map (\<lambda>(k, v). (k, [])) partial" by (induction partial) auto
    finally show ?thesis .
  qed
  from b have "distinct (map fst batch_keys)" by simp
  moreover have "map fst partial = map fst batch_keys" by (rule trans [OF k f])
  ultimately have d: "distinct (map fst ([] @ partial))" by simp
  have c: "collect ?init partial = Inr partial"
    using collect_self [OF d] i by simp
  have t0: "0 < max_tries" by (simp add: max_tries_def)
  show "fst (do_batch_get
                 (dynamodb\<lparr>batch_get_item :=
                    (\<lambda>ks s. (Inr \<lparr>Responses = Some partial, UnprocessedKeys = Some []\<rparr>, s))\<rparr>)
                 batch_keys w) = Inr partial"
    unfolding do_batch_get_def
    by (subst loop_once [where response = "\<lparr>Responses = Some partial, UnprocessedKeys = Some []\<rparr>"
          and s = "store w" and ?acc1.0 = partial])
       (simp_all add: c t0 responses_of_def)
qed

lemmas service_eval = service_def ddb_batch_get_item_def one_item_store_def image_item_def
  key_matches_schema_def has_key_def

theorem do_batch_get_complete_or_partial_witness:
  "batch_get_item service batch_request (store (start one_item_store)) =
      (Inr \<lparr>Responses = Some [(''facial-detection-dataset'', [image_item])],
            UnprocessedKeys = Some []\<rparr>, one_item_store)
   \<and> fst (do_batch_get service batch_request (start one_item_store)) =
        Inr [(''facial-detection-dataset'', [image_item])]
   \<and> calls_of (events (snd (do_batch_get service batch_request (start one_item_store)))) =
        [batch_request]
   \<and> answers throttled batch_request (store (start one_item_store))
       [throttled_response batch_request, throttled_response batch_request,
        throttled_response batch_request, throttled_response batch_request,
        throttled_response batch_request]
   \<and> distinct (map fst batch_request)
   \<and> fst (do_batch_get throttled batch_request (start one_item_store)) =
        Inr [(''facial-detection-dataset'', [])]
   \<and> fst (do_batch_get
            (throttled\<lparr>batch_get_item :=
               (\<lambda>ks s. (Inr \<lparr>Responses = Some [(''facial-detection-dataset'', [])],
                               UnprocessedKeys = Some []\<rparr>, s))\<rparr>)
            batch_request (start one_item_store)) = Inr [(''facial-detection-dataset'', [])]"
  using do_batch_get_complete_or_partial [of service batch_request "start one_item_store"
      "\<lparr>Responses = Some [(''facial-detection-dataset'', [image_item])], UnprocessedKeys = Some []\<rparr>"
      one_item_store "[(''facial-detection-dataset'', [image_item])]"
      "[throttled_response batch_request, throttled_response batch_request,
        throttled_response batch_request, throttled_response batch_request,
        throttled_response batch_request]" "[(''facial-detection-dataset'', [])]"]
   do_batch_get_complete_or_partial [of throttled batch_request "start one_item_store"
      "\<lparr>Responses = Some [(''facial-detection-dataset'', [image_item])], UnprocessedKeys = Some []\<rparr>"
      one_item_store "[(''facial-detection-dataset'', [image_item])]"
      "[throttled_response batch_request, throttled_response batch_request,
        throttled_response batch_request, throttled_response batch_request,
        throttled_response batch_request]" "[(''facial-detection-dataset'', [])]"]
  by (simp add: inputs service_eval)

subsection \<open>The table client\<close>

lemmas client_eval = create_table_def create_table_arguments_def on_client_error_def emit_def
  delete_table_def write_batch_def get_entry_def exists_table_def start_def service_def

lemmas ddb_eval = ddb_create_table_def ddb_delete_def ddb_load_def ddb_wait_until_exists_def
  ddb_get_item_def ddb_batch_writer_def put_request_def put_row_def key_of_def not_found_def
  key_matches_schema_def has_key_def one_item_store_def image_item_def image_key_def

text \<open>
  C9. When the resource's \<open>create_table\<close> raises, \<open>DynamoDBTable.create_table\<close> raises
  the same exception and \<open>self.table\<close> is what it was before the call: with no handle
  bound before, none is bound after.
\<close>

theorem create_table_rejected:
  assumes "resource_create_table dyn_resource (create_table_arguments table_name) (store w) =
             (Inl err, s)"
  shows "fst (create_table dyn_resource table_name w) = Inl err
     \<and> table (snd (create_table dyn_resource table_name w)) = table w"
  using assms
  by (cases err) (simp_all add: create_table_def on_client_error_def emit_def)

theorem create_table_rejected_witness:
  "exists_table read_only ''facial-detection-dataset'' (start []) = (Inr False, start [])
   \<and> table (start []) = None
   \<and> resource_create_table read_only (create_table_arguments ''facial-detection-dataset'')
        (store (start [])) =
        (Inl (ClientError ''AccessDeniedException''
                ''User is not authorized to perform: dynamodb:CreateTable''), [])
   \<and> fst (create_table read_only ''facial-detection-dataset'' (start [])) =
        Inl (ClientError ''AccessDeniedException''
               ''User is not authorized to perform: dynamodb:CreateTable'')
   \<and> table (snd (create_table read_only ''facial-detection-dataset'' (start []))) = None"
  using create_table_rejected [of read_only "''facial-detection-dataset''" "start []"
      "ClientError ''AccessDeniedException''
         ''User is not authorized to perform: dynamodb:CreateTable''" "[]"]
  by (simp add: read_only_def client_eval ddb_eval)

text \<open>
  C10. When the handle's \<open>delete\<close> raises a \<open>ClientError\<close>, \<open>delete_table\<close> raises it and
  the handle stays bound to the same table; when \<open>delete\<close> returns, the handle is reset;
  and a bound handle is reset only if \<open>delete\<close> returned.
\<close>

theorem delete_table_atomic:
  "(table w = Some t \<and> delete dyn_resource t (store w) = (Inl (ClientError code msg), s)
      \<longrightarrow> fst (delete_table dyn_resource w) = Inl (ClientError code msg)
          \<and> table (snd (delete_table dyn_resource w)) = Some t)
   \<and> (table w = Some t \<and> delete dyn_resource t (store w) = (Inr (), s)
      \<longrightarrow> fst (delete_table dyn_resource w) = Inr ()
          \<and> table (snd (delete_table dyn_resource w)) = None)
   \<and> (table w = Some t \<and> table (snd (delete_table dyn_resource w)) = None
      \<longrightarrow> fst (delete dyn_resource t (store w)) = Inr ())"
  by (cases "delete dyn_resource t (store w)")
     (auto simp: delete_table_def on_client_error_def emit_def split: sum.splits error.splits)

theorem delete_table_atomic_witness:
  "table ((start [])\<lparr>table := Some ''facial-detection-dataset''\<rparr>) =
     Some ''facial-detection-dataset''
   \<and> delete service ''facial-detection-dataset''
       (store ((start [])\<lparr>table := Some ''facial-detection-dataset''\<rparr>)) =
       (Inl (ClientError ''ResourceNotFoundException'' ''Requested resource not found''), [])
   \<and> fst (delete_table service ((start [])\<lparr>table := Some ''facial-detection-dataset''\<rparr>)) =
       Inl (ClientError ''ResourceNotFoundException'' ''Requested resource not found'')
   \<and> table (snd (delete_table service
       ((start [])\<lparr>table := Some ''facial-detection-dataset''\<rparr>))) =
       Some ''facial-detection-dataset''
   \<and> table ((start one_item_store)\<lparr>table := Some ''facial-detection-dataset''\<rparr>) =
       Some ''facial-detection-dataset''
   \<and> delete service ''facial-detection-dataset''
        (store ((start one_item_store)\<lparr>table := Some ''facial-detection-dataset''\<rparr>)) =
        (Inr (), [])
   \<and> fst (delete_table service
        ((start one_item_store)\<lparr>table := Some ''facial-detection-dataset''\<rparr>)) = Inr ()
   \<and> table (snd (delete_table service
        ((start one_item_store)\<lparr>table := Some ''facial-detection-dataset''\<rparr>))) = None"
  using delete_table_atomic [of "(start [])\<lparr>table := Some ''facial-detection-dataset''\<rparr>"
      "''facial-detection-dataset''" service "''ResourceNotFoundException''"
      "''Requested resource not found''" "[]"]
    delete_table_atomic [of "(start one_item_store)\<lparr>table := Some ''facial-detection-dataset''\<rparr>"
      "''facial-detection-dataset''" service "''ResourceNotFoundException''"
      "''Requested resource not found''" "[]"]
  by (simp add: start_def service_def ddb_delete_def not_found_def one_item_store_def)

text \<open>
  C8, as the code has it. When the service answers \<open>get_item\<close> with no item,
  \<open>get_entry\<close> raises the built-in \<open>KeyError\<close> for the missing \<open>Item\<close> entry of the
  response. The exception is not a \<open>ClientError\<close>: nothing is logged, and the handle and
  the events are unchanged.
\<close>

theorem get_entry_absent:
  assumes "table w = Some t"
    and "get_item dyn_resource t [(''image_name'', S image_name), (''is_train'', N is_train)]
           (store w) = (Inr None, s)"
  shows "get_entry dyn_resource image_name is_train w =
           (Inl (KeyError ''Item''), w\<lparr>store := s\<rparr>)"
  using assms by (simp add: get_entry_def)

theorem get_entry_absent_witness:
  "table (snd (exists_table service ''facial-detection-dataset'' (start is_train_store))) =
     Some ''facial-detection-dataset''
   \<and> get_item service ''facial-detection-dataset''
        [(''image_name'', S ''missing.jpg''), (''is_train'', N 1)]
        (store (snd (exists_table service ''facial-detection-dataset'' (start is_train_store)))) =
        (Inr None, is_train_store)
   \<and> get_entry service ''missing.jpg'' 1
        (snd (exists_table service ''facial-detection-dataset'' (start is_train_store))) =
        (Inl (KeyError ''Item''),
         \<lparr>table = Some ''facial-detection-dataset'', store = is_train_store, events = []\<rparr>)"
  using get_entry_absent
    [of "snd (exists_table service ''facial-detection-dataset'' (start is_train_store))"
      "''facial-detection-dataset''" service "''missing.jpg''" 1 is_train_store]
  by (simp add: client_eval ddb_eval is_train_store_def)

text \<open>
  On an empty table the service returns no item for \<open>missing.jpg\<close>, and what
  \<open>get_entry\<close> raises is \<open>KeyError\<close>, with no log line: there is no \<open>NotFoundError\<close>.
\<close>

theorem get_entry_absent_counterexample:
  "get_item service ''facial-detection-dataset''
        [(''image_name'', S ''missing.jpg''), (''is_train'', N 1)] is_train_store =
        (Inr None, is_train_store)
   \<and> fst (get_entry service ''missing.jpg'' 1
        \<lparr>table = Some ''facial-detection-dataset'', store = is_train_store, events = []\<rparr>) =
        Inl (KeyError ''Item'')
   \<and> exception_name (KeyError ''Item'') \<noteq> ''NotFoundError''
   \<and> events (snd (get_entry service ''missing.jpg'' 1
        \<lparr>table = Some ''facial-detection-dataset'', store = is_train_store, events = []\<rparr>)) = []"
  by (simp add: client_eval ddb_eval is_train_store_def)

text \<open>
  C1 at one record. The table is created by \<open>create_table\<close>, the record built by
  \<open>map_list_to_json\<close> is written by \<open>write_batch\<close>, and \<open>get_entry\<close> with the record's
  image name and partition value does not return it: the key it sends names the
  attribute \<open>is_train\<close>, the key schema of the table names \<open>train_set\<close>, and the service
  rejects the request. The item is there: \<open>get_item\<close> with the key of the schema finds it.
\<close>

theorem get_entry_after_write_batch:
  "map_list_to_json [''2002/08/11/big/img_591'', ''1'',
       ''123.583300 85.549500 1.265839 269.693400 161.781200  1''] = Inr image_item
   \<and> fst (create_table service ''facial-detection-dataset'' (start [])) =
        Inr ''facial-detection-dataset''
   \<and> write_batch service [image_item]
        (snd (create_table service ''facial-detection-dataset'' (start []))) =
        (Inr (), \<lparr>table = Some ''facial-detection-dataset'', store = one_item_store, events = []\<rparr>)
   \<and> fst (get_entry service ''2002/08/11/big/img_591'' 1
        \<lparr>table = Some ''facial-detection-dataset'', store = one_item_store, events = []\<rparr>) =
        Inl (ClientError ''ValidationException''
               ''The provided key element does not match the schema'')
   \<and> fst (get_item service ''facial-detection-dataset''
             [(''image_name'', S ''2002/08/11/big/img_591''), (''train_set'', N 1)] one_item_store) =
        Inr (Some image_item)"
  apply (simp add: map_list_to_json_def list_get_def py_int_eval client_eval ddb_eval)
  apply (intro conjI; force simp: image_iff)
  done

subsection \<open>The train and test split\<close>

lemma n_test_eq: "nat \<lceil>(1 / 5 :: rat) * of_nat n\<rceil> = (n + 4) div 5"
proof -
  have "\<lceil>(1 / 5 :: rat) * of_nat n\<rceil> = \<lceil>(of_int (int n) :: rat) / of_int 5\<rceil>" by simp
  also have "\<dots> = - (- int n div 5)" by (rule ceiling_divide_eq_div)
  also have "\<dots> = (int n + 4) div 5" by presburger
  finally show ?thesis by (simp add: nat_div_distrib) 
qed

lemma n_test_less: "2 \<le> (n::nat) \<Longrightarrow> (n + 4) div 5 < n"
  by presburger

lemma n_test_round: "\<bar>int ((n + 4) div 5) - round (of_nat n / 5 :: rat)\<bar> \<le> 1"
proof -
  have "round (of_nat n / 5 :: rat) = \<lfloor>(of_int (2 * int n + 5) :: rat) / of_int 10\<rfloor>"
    unfolding round_def by (simp add: field_simps)
  also have "\<dots> = (2 * int n + 5) div 10" by (rule floor_divide_of_int_eq)
  finally have r: "round (of_nat n / 5 :: rat) = (2 * int n + 5) div 10" .
  have "int ((n + 4) div 5) = (int n + 4) div 5" by (simp add: zdiv_int)
  then show ?thesis unfolding r by presburger
qed

lemma train_test_split_fifth:
  assumes "length permutation = length records" and "2 \<le> length records"
  shows "train_test_split records (1 / 5) permutation =
    Inr (map ((!) records) (drop ((length records + 4) div 5) permutation),
         map ((!) records) (take ((length records + 4) div 5) permutation))"
  unfolding train_test_split_def Let_def n_test_eq
  using assms n_test_less [of "length records"] by simp

lemma train_test_split_short:
  "length records < 2 \<Longrightarrow> train_test_split records (1 / 5) permutation = Inl ValueError"
  unfolding train_test_split_def Let_def n_test_eq
  by (cases records) (simp_all)

lemma mset_nth_permutation:
  assumes "mset permutation = mset [0..<length xs]"
  shows "mset (map ((!) xs) permutation) = mset xs"
proof -
  have "mset (map ((!) xs) permutation) = image_mset ((!) xs) (mset permutation)" by simp
  also have "\<dots> = mset (map ((!) xs) [0..<length xs])" unfolding assms by simp
  finally show ?thesis by (simp add: map_nth)
qed

lemma length_permutation:
  "mset permutation = mset [0..<n] \<Longrightarrow> length permutation = n"
  using mset_eq_length [of permutation "[0..<n]"] by simp

lemma modify_value_train_set: "dict_get (modify_value d) ''train_set'' = Inr (N 0)"
  by (simp add: dict_get_def modify_value_def update_conv')

lemma modify_value_image_name:
  "dict_get (modify_value d) ''image_name'' = dict_get d ''image_name''"
  by (simp add: dict_get_def modify_value_def update_conv')

lemmas items = image_item_def second_item_def third_item_def

lemma set_drop_permutation:
  assumes "mset p = mset [0..<n]"
  shows "set (drop k p) = {0..<n} - set (take k p)"
proof -
  have d: "distinct p" using mset_eq_imp_distinct_iff [OF assms] by simp
  have s: "set p = {0..<n}" using mset_eq_setD [OF assms] by simp
  have "distinct (take k p @ drop k p)" using d by simp
  then have "set (take k p) \<inter> set (drop k p) = {}" by (simp only: distinct_append)
  moreover have "set (take k p) \<union> set (drop k p) = {0..<n}"
    using s by (metis append_take_drop_id set_append)
  ultimately show ?thesis by blast
qed

text \<open>
  C7, as the code has it. The test fraction is the constant \<open>0.2\<close>. For at least two
  records with pairwise distinct image names, each with \<open>train_set = 1\<close> as
  \<open>map_list_to_json\<close> builds them, and for every permutation the generator may draw:
  the test partition has \<open>ceil(0.2 * n)\<close> records, which is within one of
  \<open>round(0.2 * n)\<close> (no tie occurs at fifths, so Python's \<open>round\<close> is the rounding to
  nearest here); train and test together hold exactly the input records, none dropped
  or duplicated; their sets of image names are disjoint and cover those of the input;
  tagging keeps the image names; every train record has \<open>train_set = 1\<close> and every
  tagged test record \<open>train_set = 0\<close>. The records of the two partitions sit at
  different indices of the input, so the in-place update of a test record does not reach
  a train record.
\<close>

theorem split_and_tag_partition:
  assumes "mset permutation = mset [0..<length records]"
    and "2 \<le> length records"
    and "distinct (map (\<lambda>d. dict_get d ''image_name'') records)"
    and "\<forall>d\<in>set records. dict_get d ''train_set'' = Inr (N 1)"
  shows "\<exists>train test.
      train_test_split records (1 / 5) permutation = Inr (train, test)
    \<and> split_and_tag records permutation = Inr (train @ map modify_value test)
    \<and> length test = (length records + 4) div 5
    \<and> \<bar>int (length test) - round (of_nat (length records) / 5 :: rat)\<bar> \<le> 1
    \<and> mset (train @ test) = mset records
    \<and> set (map (\<lambda>d. dict_get d ''image_name'') train)
        \<union> set (map (\<lambda>d. dict_get d ''image_name'') test)
        = set (map (\<lambda>d. dict_get d ''image_name'') records)
    \<and> set (map (\<lambda>d. dict_get d ''image_name'') train)
        \<inter> set (map (\<lambda>d. dict_get d ''image_name'') test) = {}
    \<and> map (\<lambda>d. dict_get d ''image_name'') (map modify_value test)
        = map (\<lambda>d. dict_get d ''image_name'') test
    \<and> (\<forall>d\<in>set train. dict_get d ''train_set'' = Inr (N 1))
    \<and> (\<forall>d\<in>set (map modify_value test). dict_get d ''train_set'' = Inr (N 0))"
proof -
  define k where "k = (length records + 4) div 5"
  define train where "train = map ((!) records) (drop k permutation)"
  define test where "test = map ((!) records) (take k permutation)"
  define name where "name = (\<lambda>d::item. dict_get d ''image_name'')"
  have len: "length permutation = length records"
    using assms(1) by (rule length_permutation)
  have k: "k < length records" unfolding k_def using assms(2) by (rule n_test_less)
  have split: "train_test_split records (1 / 5) permutation = Inr (train, test)"
    unfolding train_def test_def k_def using len assms(2) by (rule train_test_split_fifth)
  have tag: "split_and_tag records permutation = Inr (train @ map modify_value test)"
    by (simp add: split_and_tag_def split)
  have lt: "length test = k" unfolding test_def using k len by simp
  have "mset (train @ test) = mset (map ((!) records) (take k permutation @ drop k permutation))"
    unfolding train_def test_def by (simp only: mset_append map_append add.commute)
  then have ms: "mset (train @ test) = mset records"
    using mset_nth_permutation [OF assms(1)] by simp
  have msn: "mset (map name (train @ test)) = mset (map name records)"
    using ms by (simp only: mset_map)
  have dn: "distinct (map name (train @ test))"
    using assms(3) mset_eq_imp_distinct_iff [OF msn] unfolding name_def by simp
  have "set (map name (train @ test)) = set (map name records)"
    using msn by (rule mset_eq_setD)
  then have un: "set (map name train) \<union> set (map name test) = set (map name records)" by simp
  have dj: "set (map name train) \<inter> set (map name test) = {}"
    using dn by simp
  have nm: "map name (map modify_value test) = map name test"
    unfolding name_def by (simp add: modify_value_image_name)
  have "set (train @ test) = set records" using ms by (rule mset_eq_setD)
  then have t1: "\<forall>d\<in>set train. dict_get d ''train_set'' = Inr (N 1)"
    using assms(4) by auto
  have t0: "\<forall>d\<in>set (map modify_value test). dict_get d ''train_set'' = Inr (N 0)"
    by (simp add: modify_value_train_set)
  have rd: "\<bar>int (length test) - round (of_nat (length records) / 5 :: rat)\<bar> \<le> 1"
    unfolding lt k_def by (rule n_test_round)
  show ?thesis
    using split tag lt rd ms un dj nm t1 t0 unfolding name_def k_def by blast
qed

theorem split_and_tag_partition_witness:
  "mset [1, 0] = mset [0..<length [image_item, second_item]]
   \<and> 2 \<le> length [image_item, second_item]
   \<and> distinct (map (\<lambda>d. dict_get d ''image_name'') [image_item, second_item])
   \<and> dict_get image_item ''train_set'' = Inr (N 1)
   \<and> dict_get second_item ''train_set'' = Inr (N 1)
   \<and> train_test_split [image_item, second_item] (1 / 5) [1, 0] = Inr ([image_item], [second_item])
   \<and> split_and_tag [image_item, second_item] [1, 0] = Inr [image_item, modify_value second_item]
   \<and> dict_get (modify_value second_item) ''train_set'' = Inr (N 0)"
  using split_and_tag_partition [of "[1, 0]" "[image_item, second_item]"]
  by (auto simp: upt_rec [of 0] upt_rec [of 1] dict_get_def items train_test_split_fifth split_and_tag_def modify_value_def)

text \<open>
  A sequence of one record is not partitioned: the train set would be empty, and
  \<open>train_test_split\<close> raises \<open>ValueError\<close>.
\<close>

theorem split_and_tag_partition_counterexample:
  "mset [0] = mset [0..<length [image_item]]
   \<and> split_and_tag [image_item] [0] = Inl ValueError"
  by (simp add: split_and_tag_def train_test_split_short)

lemma set_take_permutation:
  "mset p = mset [0..<n] \<Longrightarrow> set (take k p) \<subseteq> {0..<n}"
  using mset_eq_setD [of p "[0..<n]"] set_take_subset [of k p] by auto

lemma nth_image_eq:
  assumes "distinct records" and "A \<subseteq> {0..<length records}" and "B \<subseteq> {0..<length records}"
  shows "(!) records ` A = (!) records ` B \<longleftrightarrow> A = B"
proof -
  have "inj_on ((!) records) {0..<length records}"
    using assms(1) by (auto simp: inj_on_def nth_eq_iff_index_eq)
  then show ?thesis using assms(2,3) by (rule inj_on_image_eq_iff)
qed


text \<open>
  C6, as the code has it. \<open>train_test_split\<close> is called with \<open>test_size=0.2\<close> and no
  \<open>random_state\<close>, and nothing seeds the process-wide generator: a run has no seed to
  depend on, and its assignment is decided by the permutation that the generator draws.
  For at least two pairwise different records and two runs given any seeds, equal or not:
  the runs put the same records in the test part and the same records in the train part
  exactly when their draws hold the same indices in the first \<open>\<lceil>0.2 n\<rceil>\<close> places.
\<close>

theorem seeded_run_decided_by_draw:
  assumes "mset p = mset [0..<length records]"
    and "mset q = mset [0..<length records]"
    and "2 \<le> length records"
    and "distinct records"
  shows "\<exists>train test train' test'.
      train_test_split records (1 / 5) p = Inr (train, test)
    \<and> train_test_split records (1 / 5) q = Inr (train', test')
    \<and> seeded_run rng_seed records p = Inr (train @ map modify_value test)
    \<and> seeded_run rng_seed' records q = Inr (train' @ map modify_value test')
    \<and> (set test = set test' \<and> set train = set train'
        \<longleftrightarrow> set (take ((length records + 4) div 5) p) = set (take ((length records + 4) div 5) q))"
proof -
  define k where "k = (length records + 4) div 5"
  have lp: "length p = length records" using assms(1) by (rule length_permutation)
  have lq: "length q = length records" using assms(2) by (rule length_permutation)
  have sp: "train_test_split records (1 / 5) p =
      Inr (map ((!) records) (drop k p), map ((!) records) (take k p))"
    unfolding k_def using lp assms(3) by (rule train_test_split_fifth)
  have sq: "train_test_split records (1 / 5) q =
      Inr (map ((!) records) (drop k q), map ((!) records) (take k q))"
    unfolding k_def using lq assms(3) by (rule train_test_split_fifth)
  have te: "(!) records ` set (take k p) = (!) records ` set (take k q)
      \<longleftrightarrow> set (take k p) = set (take k q)"
    using assms(4) set_take_permutation [OF assms(1)] set_take_permutation [OF assms(2)]
    by (rule nth_image_eq)
  have tr: "set (take k p) = set (take k q) \<Longrightarrow> set (drop k p) = set (drop k q)"
    using set_drop_permutation [OF assms(1)] set_drop_permutation [OF assms(2)] by simp
  have "set (map ((!) records) (take k p)) = set (map ((!) records) (take k q))
        \<and> set (map ((!) records) (drop k p)) = set (map ((!) records) (drop k q))
      \<longleftrightarrow> set (take k p) = set (take k q)"
    using te tr by auto
  then show ?thesis
    using sp sq unfolding k_def by (simp add: seeded_run_def split_and_tag_def)
qed

theorem seeded_run_decided_by_draw_witness:
  "mset [2, 0, 1] = mset [0..<length [image_item, second_item, third_item]]
   \<and> mset [2, 1, 0] = mset [0..<length [image_item, second_item, third_item]]
   \<and> 2 \<le> length [image_item, second_item, third_item]
   \<and> distinct [image_item, second_item, third_item]
   \<and> seeded_run 42 [image_item, second_item, third_item] [2, 0, 1] =
       Inr [image_item, second_item, modify_value third_item]
   \<and> seeded_run 7 [image_item, second_item, third_item] [2, 1, 0] =
       Inr [second_item, image_item, modify_value third_item]
   \<and> set (take ((length [image_item, second_item, third_item] + 4) div 5) [2, 0, 1]) =
       set (take ((length [image_item, second_item, third_item] + 4) div 5) [2, 1, 0])
   \<and> set [third_item] = set [third_item]
   \<and> set [image_item, second_item] = set [second_item, image_item]"
  using seeded_run_decided_by_draw
    [of "[2, 0, 1]" "[image_item, second_item, third_item]" "[2, 1, 0]" 42 7]
  by (auto simp: upt_rec [of 0] upt_rec [of 1] upt_rec [of 2] seeded_run_def split_and_tag_def
        train_test_split_fifth items)


text \<open>
  Two runs with the same seed on the same two records, one drawing \<open>[0, 1]\<close> and the other
  \<open>[1, 0]\<close>: the first tags \<open>image_item\<close> as test, the second tags \<open>second_item\<close>.
\<close>

theorem seeded_run_counterexample:
  "mset [0, 1] = mset [0..<length [image_item, second_item]]
   \<and> mset [1, 0] = mset [0..<length [image_item, second_item]]
   \<and> seeded_run 42 [image_item, second_item] [0, 1] = Inr [second_item, modify_value image_item]
   \<and> seeded_run 42 [image_item, second_item] [1, 0] = Inr [image_item, modify_value second_item]
   \<and> seeded_run 42 [image_item, second_item] [0, 1] \<noteq> seeded_run 42 [image_item, second_item] [1, 0]"
  by (simp add: seeded_run_def split_and_tag_def train_test_split_fifth items
        upt_rec [of 0] upt_rec [of 1])

end
